theory Spec2Isabelle
  imports Complex_Main
begin

section \<open>Data model\<close>

text \<open>
  The thermostat backend keeps its state in module-level variables
  (\<^verbatim>\<open>services/logic.ts\<close>, \<^verbatim>\<open>services/mqtt.ts\<close>, \<^verbatim>\<open>hardware/relay.ts\<close>).
  The embedding gathers them in one record \<open>world\<close> and passes it explicitly.
  A JavaScript \<^verbatim>\<open>number\<close> holding a temperature is a \<open>real\<close>: the exact value
  of a finite IEEE double (\<open>isDouble\<close> below; NaN and the infinities are left out).
  Comparisons of doubles are exact; the one arithmetic operation on temperatures, the
  subtraction in \<^verbatim>\<open>controlHeating\<close>, is rounded to the nearest double by
  \<open>toDouble\<close>, and a decimal literal \<open>d\<close> of the source stands for
  \<open>toDouble d\<close>. Millisecond clock values and counters are \<open>int\<close>.
  What the environment decides is an argument of the operation that asks for it:
  the clock (\<open>now\<close>, one value for the whole call), the sensor reading (\<open>Inl msg\<close> when \<^verbatim>\<open>getTemperature\<close>
  throws, \<open>Inr t\<close> otherwise), whether the GPIO write succeeds, and whether the
  settings database accepts the write.
\<close>

datatype error =
    SensorError string
  | TemperatureOutOfRange real
  | HysteresisInvalid real
  | PersistFailed string
  | RelayOffFailed
  | RelayOnFailed

datatype notice = SensorPaused | TooManyErrors int

record ThermostatConfig =
  c_targetTemperature :: real
  c_hysteresis :: real
  checkIntervalMs :: int
  maxConsecutiveErrors :: int

text \<open>\<^verbatim>\<open>Partial<ThermostatConfig>\<close>: a field that is absent is \<open>None\<close>.\<close>

record PartialConfig =
  p_targetTemperature :: "real option"
  p_hysteresis :: "real option"
  p_checkIntervalMs :: "int option"
  p_maxConsecutiveErrors :: "int option"

record ThermostatState =
  currentTemperature :: real
  targetTemperature :: real
  hysteresis :: real
  isHeating :: bool
  lastUpdated :: int
  isRunning :: bool
  lastError :: "error option"
  consecutiveErrors :: int

datatype topic =
  Temperature | Relay | Setpoint | Online | Mode | SetpointSet | RelaySet | ModeSet

datatype json =
    JNull
  | JBool bool
  | JNum real
  | JStr string
  | JArr "json list"
  | JObj "(string \<times> json) list"

record MqttConfig =
  m_publishInterval :: int
  reconnectPeriod :: int
  connectTimeout :: int

text \<open>\<^verbatim>\<open>Partial<MqttConfig>\<close>, for the fields the model keeps.\<close>

record PartialMqttConfig =
  p_publishInterval :: "int option"
  p_reconnectPeriod :: "int option"
  p_connectTimeout :: "int option"

record MqttServiceState =
  isConnected :: bool
  isEnabled :: bool
  lastPublishTime :: "int option"
  m_lastError :: "string option"
  reconnectAttempts :: int
  maxReconnectAttempts :: int

text \<open>
  The whole program state. \<open>thermostatInterval\<close> and \<open>publishInterval\<close> hold the
  period of the armed timer, \<open>None\<close> when no timer is armed. \<open>mqttClient\<close> says
  whether a client object is held. Three fields record what the program emits, oldest
  first: \<open>relayCommands\<close> the calls of \<^verbatim>\<open>turnOnRelay\<close> (\<open>True\<close>) and
  \<^verbatim>\<open>turnOffRelay\<close> (\<open>False\<close>), \<open>criticalErrors\<close> the messages handed to the
  registered critical-error handlers, \<open>published\<close> the retained MQTT messages as
  (topic, value, timestamp). \<open>settingTargetTemperature\<close> is the value of the
  \<^verbatim>\<open>targetTemperature\<close> document of the settings collection. Of \<^verbatim>\<open>mqttConfig\<close>
  the model keeps the three periods; a topic is named by its key in
  \<^verbatim>\<open>mqttConfig.topics\<close>. \<open>subscriptions\<close> are the topics subscribed at the last
  connect, \<open>messageListeners\<close> counts the registered \<^verbatim>\<open>message\<close> listeners.
\<close>

record world =
  thermostatState :: ThermostatState
  thermostatConfig :: ThermostatConfig
  thermostatInterval :: "int option"
  lastControlAction :: int
  criticalErrors :: "notice list"
  relayState :: bool
  relayCommands :: "bool list"
  settingTargetTemperature :: "real option"
  mqttConfig :: MqttConfig
  serviceState :: MqttServiceState
  mqttClient :: bool
  publishInterval :: "int option"
  subscriptions :: "topic list"
  messageListeners :: nat
  published :: "(topic \<times> json \<times> int) list"

definition DEFAULT_CONFIG :: ThermostatConfig where
  "DEFAULT_CONFIG =
     \<lparr>c_targetTemperature = 22, c_hysteresis = 1.5,
      checkIntervalMs = 3000, maxConsecutiveErrors = 5\<rparr>"

definition minActionInterval :: int where
  "minActionInterval = 30000"

text \<open>The object spread \<^verbatim>\<open>{ ...DEFAULT_CONFIG, ...config }\<close>.\<close>

definition spreadConfig :: "ThermostatConfig \<Rightarrow> PartialConfig \<Rightarrow> ThermostatConfig" where
  "spreadConfig d p =
     \<lparr>c_targetTemperature = (case p_targetTemperature p of None \<Rightarrow> c_targetTemperature d | Some v \<Rightarrow> v),
      c_hysteresis = (case p_hysteresis p of None \<Rightarrow> c_hysteresis d | Some v \<Rightarrow> v),
      checkIntervalMs = (case p_checkIntervalMs p of None \<Rightarrow> checkIntervalMs d | Some v \<Rightarrow> v),
      maxConsecutiveErrors =
        (case p_maxConsecutiveErrors p of None \<Rightarrow> maxConsecutiveErrors d | Some v \<Rightarrow> v)\<rparr>"

definition noConfig :: PartialConfig where
  "noConfig = \<lparr>p_targetTemperature = None, p_hysteresis = None,
               p_checkIntervalMs = None, p_maxConsecutiveErrors = None\<rparr>"

section \<open>JavaScript numbers\<close>

text \<open>
  A finite double is an integer multiple of the unit in the last place of its binade:
  \<open>2 ^ (e - 52)\<close> for \<open>2 ^ e \<le> \<bar>x\<bar> < 2 ^ (e + 1)\<close>, and \<open>2 ^ (- 1074)\<close> below
  \<open>2 ^ (- 1022)\<close>. \<open>toDouble\<close> rounds a real to the nearest such multiple, ties to
  the even one, as IEEE 754 arithmetic does with the exact result of an operation
  (overflow to an infinity is not modelled).
\<close>

definition pow2 :: "int \<Rightarrow> real" where
  "pow2 k = (if 0 \<le> k then 2 ^ nat k else inverse (2 ^ nat (- k)))"

definition binade :: "real \<Rightarrow> int" where
  "binade x = max \<lfloor>log 2 \<bar>x\<bar>\<rfloor> (- 1022)"

definition ulp :: "real \<Rightarrow> real" where
  "ulp x = pow2 (binade x - 52)"

definition roundTiesToEven :: "real \<Rightarrow> int" where
  "roundTiesToEven y =
     (let n = \<lfloor>y\<rfloor>; d = y - of_int n
      in if d < 1 / 2 then n
         else if d > 1 / 2 then n + 1
         else if even n then n else n + 1)"

definition toDouble :: "real \<Rightarrow> real" where
  "toDouble x = (if x = 0 then 0 else of_int (roundTiesToEven (x / ulp x)) * ulp x)"

definition isDouble :: "real \<Rightarrow> bool" where
  "isDouble x \<longleftrightarrow> toDouble x = x"

section \<open>Hardware: the sensor and the relay\<close>

text \<open>
  \<^verbatim>\<open>getTemperature\<close> returns \<^verbatim>\<open>parseInt(match[1], 10) / 1000\<close> for the
  millidegrees \<open>t\<close> that the sensor file shows: the double nearest to the quotient.
  It is the value \<open>Inr\<close> of a reading; when the file cannot be read or parsed it
  throws, which is the reading \<open>Inl msg\<close>.
\<close>

definition sensorValue :: "nat \<Rightarrow> real" where
  "sensorValue t = toDouble (real t / 1000)"

text \<open>
  \<^verbatim>\<open>turnOnRelay\<close> and \<^verbatim>\<open>turnOffRelay\<close> write the GPIO pin; when the write throws
  they leave \<open>relayState\<close> as it was and return \<open>False\<close>.
\<close>

definition turnOnRelay :: "bool \<Rightarrow> world \<Rightarrow> world \<times> bool" where
  "turnOnRelay gpioOk w =
     (let w1 = w\<lparr>relayCommands := relayCommands w @ [True]\<rparr>
      in if gpioOk then (w1\<lparr>relayState := True\<rparr>, True) else (w1, False))"

definition turnOffRelay :: "bool \<Rightarrow> world \<Rightarrow> world \<times> bool" where
  "turnOffRelay gpioOk w =
     (let w1 = w\<lparr>relayCommands := relayCommands w @ [False]\<rparr>
      in if gpioOk then (w1\<lparr>relayState := False\<rparr>, True) else (w1, False))"

definition getRelayState :: "world \<Rightarrow> bool" where
  "getRelayState w = relayState w"

section \<open>MQTT publishing\<close>

text \<open>
  \<^verbatim>\<open>publishMessage\<close> hands the message to the client when one is held and connected.
  The callback with which the client later reports the outcome of the publish only
  writes \<^verbatim>\<open>serviceState.lastError\<close>; it is left out, as are the subscribe callbacks.
\<close>

definition publishMessage :: "int \<Rightarrow> topic \<Rightarrow> json \<Rightarrow> world \<Rightarrow> world" where
  "publishMessage now t v w =
     (if \<not> mqttClient w \<or> \<not> isConnected (serviceState w) then w
      else w\<lparr>published := published w @ [(t, v, now)]\<rparr>)"

definition publishSetpointUpdate :: "int \<Rightarrow> real \<Rightarrow> world \<Rightarrow> world" where
  "publishSetpointUpdate now newSetpoint w =
     (if isConnected (serviceState w) then publishMessage now Setpoint (JNum newSetpoint) w
      else w)"

definition publishModeUpdate :: "int \<Rightarrow> string \<Rightarrow> world \<Rightarrow> world" where
  "publishModeUpdate now newMode w =
     (if isConnected (serviceState w) \<and> newMode \<in> set [''heat'', ''off'']
      then publishMessage now Mode (JStr newMode) w
      else w)"

section \<open>The control loop\<close>

text \<open>
  The functions of \<^verbatim>\<open>services/logic.ts\<close>, in state-passing form; a function that
  returns a value returns it beside the new state. An exception thrown inside a
  \<^verbatim>\<open>try\<close> is the branch that sets \<open>lastError\<close> and returns \<open>False\<close>. The
  \<^verbatim>\<open>catch\<close> blocks of \<^verbatim>\<open>startThermostat\<close>, \<^verbatim>\<open>stopThermostat\<close> and
  \<^verbatim>\<open>controlHeating\<close> have no branch: everything called there catches its own
  exceptions.
\<close>

definition validateTemperatureValue :: "real \<Rightarrow> bool" where
  "validateTemperatureValue temperature \<longleftrightarrow> temperature \<ge> 5 \<and> temperature \<le> 30"

definition validateHysteresisValue :: "real \<Rightarrow> bool" where
  "validateHysteresisValue h \<longleftrightarrow> h > 0 \<and> h \<le> 5"

definition resetErrorCounter :: "world \<Rightarrow> world" where
  "resetErrorCounter w =
     w\<lparr>thermostatState := (thermostatState w)\<lparr>consecutiveErrors := 0\<rparr>\<rparr>"

definition notifyCriticalError :: "notice \<Rightarrow> world \<Rightarrow> world" where
  "notifyCriticalError n w = w\<lparr>criticalErrors := criticalErrors w @ [n]\<rparr>"

definition handleSensorError :: "string \<Rightarrow> world \<Rightarrow> world" where
  "handleSensorError msg w =
     (let s = thermostatState w;
          s1 = s\<lparr>consecutiveErrors := consecutiveErrors s + 1,
                 lastError := Some (SensorError msg)\<rparr>;
          w1 = w\<lparr>thermostatState := s1\<rparr>
      in if consecutiveErrors s1 \<ge> maxConsecutiveErrors (thermostatConfig w1)
         then notifyCriticalError SensorPaused
                (w1\<lparr>thermostatState := s1\<lparr>isRunning := False\<rparr>,
                    thermostatInterval := None\<rparr>)
         else w1)"

definition updateCurrentState :: "int \<Rightarrow> string + real \<Rightarrow> world \<Rightarrow> world \<times> bool" where
  "updateCurrentState now reading w =
     (case reading of
        Inr temperature \<Rightarrow>
          (let w1 = resetErrorCounter w
           in (w1\<lparr>thermostatState := (thermostatState w1)
                     \<lparr>currentTemperature := temperature,
                      isHeating := getRelayState w1,
                      lastUpdated := now\<rparr>\<rparr>, True))
      | Inl msg \<Rightarrow> (handleSensorError msg w, False))"

definition controlHeating :: "int \<Rightarrow> bool \<Rightarrow> world \<Rightarrow> world" where
  "controlHeating now gpioOk w =
     (let s = thermostatState w; c = thermostatConfig w
      in if \<not> isRunning s then w
         else
           let lowerLimit = toDouble (c_targetTemperature c - c_hysteresis c);
               upperLimit = c_targetTemperature c
           in if now - lastControlAction w < minActionInterval then w
              else if isHeating s then
                (if currentTemperature s \<ge> upperLimit then
                   (case turnOffRelay gpioOk w of
                      (w1, success) \<Rightarrow>
                        if success
                        then w1\<lparr>thermostatState := (thermostatState w1)\<lparr>isHeating := False\<rparr>,
                                lastControlAction := now\<rparr>
                        else w1\<lparr>thermostatState :=
                                  (thermostatState w1)\<lparr>lastError := Some RelayOffFailed\<rparr>\<rparr>)
                 else w)
              else
                (if currentTemperature s < lowerLimit then
                   (case turnOnRelay gpioOk w of
                      (w1, success) \<Rightarrow>
                        if success
                        then w1\<lparr>thermostatState := (thermostatState w1)\<lparr>isHeating := True\<rparr>,
                                lastControlAction := now\<rparr>
                        else w1\<lparr>thermostatState :=
                                  (thermostatState w1)\<lparr>lastError := Some RelayOnFailed\<rparr>\<rparr>)
                 else w))"

definition stopThermostat :: "int \<Rightarrow> bool \<Rightarrow> world \<Rightarrow> world \<times> bool" where
  "stopThermostat now gpioOk w =
     (if isRunning (thermostatState w) \<and> thermostatInterval w \<noteq> None then
        (let w1 = w\<lparr>thermostatInterval := None\<rparr>;
             (w2, relayTurnedOff) =
               (if isHeating (thermostatState w1) then
                  (case turnOffRelay gpioOk w1 of
                     (w', ok) \<Rightarrow>
                       (w'\<lparr>thermostatState := (thermostatState w')\<lparr>isHeating := False\<rparr>\<rparr>, ok))
                else (w1, True));
             w3 = w2\<lparr>thermostatState := (thermostatState w2)\<lparr>isRunning := False\<rparr>\<rparr>
         in (publishModeUpdate now ''off'' w3, relayTurnedOff))
      else (w, True))"

text \<open>
  \<open>tick\<close> is the callback that \<^verbatim>\<open>startThermostat\<close> hands to \<^verbatim>\<open>setInterval\<close>;
  \<open>timerFires\<close> runs it when the timer is armed (a cleared interval never fires).
\<close>

definition tick :: "int \<Rightarrow> string + real \<Rightarrow> bool \<Rightarrow> world \<Rightarrow> world" where
  "tick now reading gpioOk w =
     (case updateCurrentState now reading w of
        (w1, stateUpdateSuccess) \<Rightarrow>
          if stateUpdateSuccess then controlHeating now gpioOk (resetErrorCounter w1)
          else
            (let s = thermostatState w1;
                 w2 = w1\<lparr>thermostatState := s\<lparr>consecutiveErrors := consecutiveErrors s + 1\<rparr>\<rparr>
             in if consecutiveErrors (thermostatState w2)
                     \<ge> maxConsecutiveErrors (thermostatConfig w2)
                then fst (stopThermostat now gpioOk
                       (notifyCriticalError
                          (TooManyErrors (consecutiveErrors (thermostatState w2))) w2))
                else w2))"

definition timerFires :: "int \<Rightarrow> string + real \<Rightarrow> bool \<Rightarrow> world \<Rightarrow> world" where
  "timerFires now reading gpioOk w =
     (if thermostatInterval w = None then w else tick now reading gpioOk w)"

definition startThermostat ::
  "int \<Rightarrow> string + real \<Rightarrow> PartialConfig \<Rightarrow> world \<Rightarrow> world \<times> bool" where
  "startThermostat now reading config w =
     (let w0 = w\<lparr>thermostatConfig := spreadConfig DEFAULT_CONFIG config\<rparr>
      in if \<not> isRunning (thermostatState w0) then
           (let w1 = w0\<lparr>thermostatState :=
                        (thermostatState w0)\<lparr>lastError := None, consecutiveErrors := 0\<rparr>\<rparr>;
                w2 = fst (updateCurrentState now reading w1);
                w3 = w2\<lparr>thermostatInterval := Some (checkIntervalMs (thermostatConfig w2))\<rparr>;
                w4 = w3\<lparr>thermostatState := (thermostatState w3)\<lparr>isRunning := True\<rparr>\<rparr>
            in (publishModeUpdate now ''heat'' w4, True))
         else (w0, True))"

text \<open>
  \<open>setTargetTemperature\<close>: \<open>db\<close> is the outcome of the \<^verbatim>\<open>updateOne\<close> upsert it awaits,
  \<open>None\<close> for success and \<open>Some msg\<close> when it rejects. The function is taken as one
  step: nothing else runs while it awaits the database.
\<close>

definition setTargetTemperature ::
  "int \<Rightarrow> string + real \<Rightarrow> bool \<Rightarrow> string option \<Rightarrow> real \<Rightarrow> world \<Rightarrow> world \<times> bool" where
  "setTargetTemperature now reading gpioOk db temperature w =
     (if \<not> validateTemperatureValue temperature then
        (w\<lparr>thermostatState :=
             (thermostatState w)\<lparr>lastError := Some (TemperatureOutOfRange temperature)\<rparr>\<rparr>,
         False)
      else
        (let w1 = w\<lparr>thermostatConfig :=
                     (thermostatConfig w)\<lparr>c_targetTemperature := temperature\<rparr>\<rparr>;
             w2 = w1\<lparr>thermostatState :=
                     (thermostatState w1)\<lparr>targetTemperature := temperature\<rparr>\<rparr>
         in case db of
              Some msg \<Rightarrow>
                (w2\<lparr>thermostatState :=
                      (thermostatState w2)\<lparr>lastError := Some (PersistFailed msg)\<rparr>\<rparr>, False)
            | None \<Rightarrow>
                (let w3 = w2\<lparr>settingTargetTemperature := Some temperature\<rparr>;
                     w4 = (if isRunning (thermostatState w3)
                           then controlHeating now gpioOk
                                  (fst (updateCurrentState now reading w3))
                           else w3)
                 in (publishSetpointUpdate now temperature w4, True))))"

definition setHysteresis :: "real \<Rightarrow> world \<Rightarrow> world \<times> bool" where
  "setHysteresis h w =
     (if \<not> validateHysteresisValue h then
        (w\<lparr>thermostatState :=
             (thermostatState w)\<lparr>lastError := Some (HysteresisInvalid h)\<rparr>\<rparr>, False)
      else (w\<lparr>thermostatConfig := (thermostatConfig w)\<lparr>c_hysteresis := h\<rparr>\<rparr>, True))"

definition resetThermostat :: "int \<Rightarrow> string + real \<Rightarrow> bool \<Rightarrow> world \<Rightarrow> world \<times> bool" where
  "resetThermostat now reading gpioOk w =
     (let wasRunning = isRunning (thermostatState w);
          targetTemp = c_targetTemperature (thermostatConfig w);
          hyst = c_hysteresis (thermostatConfig w)
      in case stopThermostat now gpioOk w of
           (w1, stopSuccess) \<Rightarrow>
             if \<not> stopSuccess then (w1, False)
             else
               (let w2 = resetErrorCounter w1;
                    w3 = w2\<lparr>thermostatState := (thermostatState w2)\<lparr>lastError := None\<rparr>\<rparr>
                in if wasRunning
                   then startThermostat now reading
                          \<lparr>p_targetTemperature = Some targetTemp, p_hysteresis = Some hyst,
                           p_checkIntervalMs = None, p_maxConsecutiveErrors = None\<rparr> w3
                   else (w3, True)))"

section \<open>The MQTT bridge\<close>

definition DEFAULT_MQTT_CONFIG :: MqttConfig where
  "DEFAULT_MQTT_CONFIG =
     \<lparr>m_publishInterval = 10000, reconnectPeriod = 5000, connectTimeout = 30000\<rparr>"

definition spreadMqttConfig :: "MqttConfig \<Rightarrow> PartialMqttConfig \<Rightarrow> MqttConfig" where
  "spreadMqttConfig d p =
     \<lparr>m_publishInterval = (case p_publishInterval p of None \<Rightarrow> m_publishInterval d | Some v \<Rightarrow> v),
      reconnectPeriod = (case p_reconnectPeriod p of None \<Rightarrow> reconnectPeriod d | Some v \<Rightarrow> v),
      connectTimeout = (case p_connectTimeout p of None \<Rightarrow> connectTimeout d | Some v \<Rightarrow> v)\<rparr>"

text \<open>
  A received message is the result of \<^verbatim>\<open>JSON.parse\<close> on its text: \<open>None\<close> when the
  parse throws. \<open>fieldIn f payload\<close> is the test \<^verbatim>\<open>f in payload\<close>: on a primitive
  it throws (\<open>None\<close>). It is written for field names that no prototype defines, as
  \<^verbatim>\<open>value\<close>, the only name the handlers ask for.
\<close>

fun fieldIn :: "string \<Rightarrow> json \<Rightarrow> bool option" where
  "fieldIn f (JObj kvs) = Some (map_of kvs f \<noteq> None)"
| "fieldIn f (JArr xs) = Some False"
| "fieldIn f JNull = None"
| "fieldIn f (JBool b) = None"
| "fieldIn f (JNum n) = None"
| "fieldIn f (JStr s) = None"

fun checkFields :: "json \<Rightarrow> string list \<Rightarrow> bool" where
  "checkFields payload [] = True"
| "checkFields payload (f # fs) =
     (case fieldIn f payload of Some True \<Rightarrow> checkFields payload fs | _ \<Rightarrow> False)"

definition parseJsonPayload :: "json option \<Rightarrow> string list \<Rightarrow> json option" where
  "parseJsonPayload message expectedFields =
     (case message of
        None \<Rightarrow> None
      | Some payload \<Rightarrow> if checkFields payload expectedFields then Some payload else None)"

text \<open>The property read \<^verbatim>\<open>payload.value\<close> of the destructuring; \<open>None\<close> is \<^verbatim>\<open>undefined\<close>.\<close>

fun getField :: "string \<Rightarrow> json \<Rightarrow> json option" where
  "getField f (JObj kvs) = map_of kvs f"
| "getField f _ = None"

definition publishThermostatStatus :: "int \<Rightarrow> world \<Rightarrow> world" where
  "publishThermostatStatus now w =
     (if \<not> isConnected (serviceState w) then w
      else
        (let thermostatState' = thermostatState w;
             relayState' = getRelayState w;
             w1 = publishMessage now Temperature (JNum (currentTemperature thermostatState')) w;
             w2 = publishMessage now Relay (JBool relayState') w1;
             w3 = publishMessage now Setpoint (JNum (targetTemperature thermostatState')) w2;
             w4 = publishMessage now Mode
                    (JStr (if isRunning thermostatState' then ''heat'' else ''off'')) w3
         in w4\<lparr>serviceState :=
                 (serviceState w4)\<lparr>lastPublishTime := Some now, m_lastError := None\<rparr>\<rparr>))"

definition handleSetpointCommand ::
  "int \<Rightarrow> string + real \<Rightarrow> bool \<Rightarrow> string option \<Rightarrow> json option \<Rightarrow> world \<Rightarrow> world" where
  "handleSetpointCommand now reading gpioOk db message w =
     (case parseJsonPayload message [''value''] of
        None \<Rightarrow> w
      | Some payload \<Rightarrow>
          (case getField ''value'' payload of
             Some (JNum v) \<Rightarrow>
               (case setTargetTemperature now reading gpioOk db v w of
                  (w1, success) \<Rightarrow>
                    if success then publishMessage now Setpoint (JNum v) w1 else w1)
           | _ \<Rightarrow> w))"

definition handleRelayCommand :: "int \<Rightarrow> bool \<Rightarrow> json option \<Rightarrow> world \<Rightarrow> world" where
  "handleRelayCommand now gpioOk message w =
     (case parseJsonPayload message [''value''] of
        None \<Rightarrow> w
      | Some payload \<Rightarrow>
          (case getField ''value'' payload of
             Some (JBool v) \<Rightarrow>
               (let w1 = (if v then fst (turnOnRelay gpioOk w) else fst (turnOffRelay gpioOk w))
                in publishMessage now Relay (JBool v) w1)
           | _ \<Rightarrow> w))"

definition handleModeCommand ::
  "int \<Rightarrow> string + real \<Rightarrow> bool \<Rightarrow> json option \<Rightarrow> world \<Rightarrow> world" where
  "handleModeCommand now reading gpioOk message w =
     (case parseJsonPayload message [''value''] of
        None \<Rightarrow> w
      | Some payload \<Rightarrow>
          (case getField ''value'' payload of
             Some (JStr v) \<Rightarrow>
               if v \<in> set [''heat'', ''off''] then
                 (let w1 = (if v = ''heat'' then fst (startThermostat now reading noConfig w)
                            else fst (stopThermostat now gpioOk w))
                  in publishMessage now Mode (JStr v) w1)
               else w
           | _ \<Rightarrow> w))"

text \<open>The \<^verbatim>\<open>message\<close> listener that \<^verbatim>\<open>setupSubscriptions\<close> registers.\<close>

definition onMessage ::
  "int \<Rightarrow> string + real \<Rightarrow> bool \<Rightarrow> string option \<Rightarrow> topic \<Rightarrow> json option \<Rightarrow> world \<Rightarrow> world" where
  "onMessage now reading gpioOk db t message w =
     (case t of
        SetpointSet \<Rightarrow> handleSetpointCommand now reading gpioOk db message w
      | RelaySet \<Rightarrow> handleRelayCommand now gpioOk message w
      | ModeSet \<Rightarrow> handleModeCommand now reading gpioOk message w
      | _ \<Rightarrow> w)"

definition setupSubscriptions :: "world \<Rightarrow> world" where
  "setupSubscriptions w =
     (if \<not> mqttClient w then w
      else w\<lparr>subscriptions := [SetpointSet, RelaySet, ModeSet],
             messageListeners := messageListeners w + 1\<rparr>)"

definition stopMqtt :: "int \<Rightarrow> world \<Rightarrow> world" where
  "stopMqtt now w =
     (let w1 = w\<lparr>serviceState := (serviceState w)\<lparr>isEnabled := False\<rparr>\<rparr>;
          w2 = w1\<lparr>publishInterval := None\<rparr>;
          w3 = (if mqttClient w2 then
                  (let w' = (if isConnected (serviceState w2)
                             then publishMessage now Online (JBool False) w2 else w2)
                   in w'\<lparr>mqttClient := False, subscriptions := [], messageListeners := 0\<rparr>)
                else w2)
      in w3\<lparr>serviceState :=
              (serviceState w3)\<lparr>isConnected := False, lastPublishTime := None,
                                 reconnectAttempts := 0\<rparr>\<rparr>)"

text \<open>
  \<open>initializeMqtt\<close>: \<open>connectError\<close> is \<open>Some msg\<close> when \<^verbatim>\<open>mqtt.connect\<close> throws.
  The listeners it registers on the client are the cases of \<open>clientEmits\<close>; a client
  that was ended and released emits nothing more.
\<close>

definition initializeMqtt :: "PartialMqttConfig option \<Rightarrow> string option \<Rightarrow> world \<Rightarrow> world" where
  "initializeMqtt config connectError w =
     (let w0 = (case config of
                  None \<Rightarrow> w
                | Some p \<Rightarrow> w\<lparr>mqttConfig := spreadMqttConfig (mqttConfig w) p\<rparr>)
      in case connectError of
           None \<Rightarrow>
             w0\<lparr>mqttClient := True, subscriptions := [], messageListeners := 0,
                serviceState := (serviceState w0)\<lparr>isEnabled := True\<rparr>\<rparr>
         | Some msg \<Rightarrow>
             w0\<lparr>serviceState :=
                  (serviceState w0)\<lparr>m_lastError := Some msg, isEnabled := False\<rparr>\<rparr>)"

datatype clientEvent = Connect | Disconnect | Error string | Reconnect | Close

definition onConnect :: "int \<Rightarrow> world \<Rightarrow> world" where
  "onConnect now w =
     (let w1 = w\<lparr>serviceState :=
                  (serviceState w)\<lparr>isConnected := True, reconnectAttempts := 0,
                                    m_lastError := None\<rparr>\<rparr>;
          w2 = publishMessage now Online (JBool True) w1;
          w3 = setupSubscriptions w2;
          w4 = publishThermostatStatus now w3
      in w4\<lparr>publishInterval := Some (m_publishInterval (mqttConfig w4))\<rparr>)"

definition onReconnect :: "int \<Rightarrow> world \<Rightarrow> world" where
  "onReconnect now w =
     (let w1 = w\<lparr>serviceState :=
                  (serviceState w)\<lparr>reconnectAttempts := reconnectAttempts (serviceState w) + 1\<rparr>\<rparr>
      in if reconnectAttempts (serviceState w1) \<ge> maxReconnectAttempts (serviceState w1)
         then stopMqtt now w1
         else w1)"

definition clientEmits :: "int \<Rightarrow> clientEvent \<Rightarrow> world \<Rightarrow> world" where
  "clientEmits now e w =
     (if \<not> mqttClient w then w
      else case e of
             Connect \<Rightarrow> onConnect now w
           | Disconnect \<Rightarrow> w\<lparr>serviceState := (serviceState w)\<lparr>isConnected := False\<rparr>\<rparr>
           | Error msg \<Rightarrow>
               w\<lparr>serviceState :=
                   (serviceState w)\<lparr>m_lastError := Some msg, isConnected := False\<rparr>\<rparr>
           | Reconnect \<Rightarrow> onReconnect now w
           | Close \<Rightarrow> w\<lparr>serviceState := (serviceState w)\<lparr>isConnected := False\<rparr>\<rparr>)"

text \<open>The periodic publish: the callback of \<open>publishInterval\<close>, when that timer is armed.\<close>

definition publishTimerFires :: "int \<Rightarrow> world \<Rightarrow> world" where
  "publishTimerFires now w =
     (if publishInterval w = None then w else publishThermostatStatus now w)"

section \<open>The program as a transition system\<close>

text \<open>
  The module-level initialisers, the modules being loaded at time \<open>t0\<close>. (The
  asynchronous read at load time that copies the persisted target and hysteresis into
  \<open>thermostatState\<close> is not part of the model; the control decision reads
  \<open>thermostatConfig\<close>.)
\<close>

definition initialWorld :: "int \<Rightarrow> world" where
  "initialWorld t0 =
     \<lparr>thermostatState =
        \<lparr>currentTemperature = 0, targetTemperature = 22, hysteresis = 1.5,
         isHeating = False, lastUpdated = t0, isRunning = False,
         lastError = None, consecutiveErrors = 0\<rparr>,
      thermostatConfig = DEFAULT_CONFIG,
      thermostatInterval = None,
      lastControlAction = t0,
      criticalErrors = [],
      relayState = False,
      relayCommands = [],
      settingTargetTemperature = None,
      mqttConfig = DEFAULT_MQTT_CONFIG,
      serviceState =
        \<lparr>isConnected = False, isEnabled = False, lastPublishTime = None,
         m_lastError = None, reconnectAttempts = 0, maxReconnectAttempts = 10\<rparr>,
      mqttClient = False,
      publishInterval = None,
      subscriptions = [],
      messageListeners = 0,
      published = []\<rparr>"

text \<open>
  An event is one call from outside (the HTTP routes, a timer, the MQTT client) with
  what the environment answers during it. A message reaches the listeners only over an
  established connection and on a subscribed topic; every registered listener handles
  it (\<^verbatim>\<open>setupSubscriptions\<close> adds one at each connect), one after the other.
\<close>

datatype event =
    StartThermostat int "string + real" PartialConfig
  | StopThermostat int bool
  | SetTargetTemperature int "string + real" bool "string option" real
  | SetHysteresis real
  | ResetThermostat int "string + real" bool
  | TimerFires int "string + real" bool
  | Message int "string + real" bool "string option" topic "json option"
  | ClientEmits int clientEvent
  | PublishTimerFires int
  | InitializeMqtt "PartialMqttConfig option" "string option"
  | StopMqtt int

fun step :: "world \<Rightarrow> event \<Rightarrow> world" where
  "step w (StartThermostat now reading config) = fst (startThermostat now reading config w)"
| "step w (StopThermostat now gpioOk) = fst (stopThermostat now gpioOk w)"
| "step w (SetTargetTemperature now reading gpioOk db v) =
     fst (setTargetTemperature now reading gpioOk db v w)"
| "step w (SetHysteresis h) = fst (setHysteresis h w)"
| "step w (ResetThermostat now reading gpioOk) = fst (resetThermostat now reading gpioOk w)"
| "step w (TimerFires now reading gpioOk) = timerFires now reading gpioOk w"
| "step w (Message now reading gpioOk db t message) =
     (if mqttClient w \<and> isConnected (serviceState w) \<and> t \<in> set (subscriptions w)
      then (onMessage now reading gpioOk db t message ^^ messageListeners w) w else w)"
| "step w (ClientEmits now e) = clientEmits now e w"
| "step w (PublishTimerFires now) = publishTimerFires now w"
| "step w (InitializeMqtt config connectError) = initializeMqtt config connectError w"
| "step w (StopMqtt now) = stopMqtt now w"

definition run :: "world \<Rightarrow> event list \<Rightarrow> world" where
  "run w es = foldl step w es"

text \<open>
  What an observer of the pin sees during a run of timer ticks: \<open>toggleTimes\<close> lists
  the times of the ticks at which \<open>relayState\<close> changed. A tick is given by its clock
  value, the sensor reading and whether the GPIO write succeeds.
\<close>

fun toggleTimes :: "world \<Rightarrow> (int \<times> (string + real) \<times> bool) list \<Rightarrow> int list" where
  "toggleTimes w [] = []"
| "toggleTimes w ((now, reading, gpioOk) # ticks) =
     (let w' = timerFires now reading gpioOk w
      in (if relayState w' \<noteq> relayState w then [now] else []) @ toggleTimes w' ticks)"

text \<open>The values published on the mode topic, oldest first.\<close>

definition modeMessages :: "world \<Rightarrow> json list" where
  "modeMessages w = map (\<lambda>m. fst (snd m)) (filter (\<lambda>m. fst m = Mode) (published w))"

text \<open>The events the bridge produces by itself: what the client emits, and its timer.\<close>

fun bridgeOwn :: "event \<Rightarrow> bool" where
  "bridgeOwn (ClientEmits now e) = True"
| "bridgeOwn (PublishTimerFires now) = True"
| "bridgeOwn _ = False"

subsection \<open>Example runs\<close>

text \<open>
  Started with the defaults at a reading of 19 degrees; then a tick, more than 30 s
  after load, that switches the heating on; then three ticks at which the sensor fails.
\<close>

definition startedWorld :: world where
  "startedWorld = run (initialWorld 0) [StartThermostat 1000 (Inr 19) noConfig]"

definition heatingWorld :: world where
  "heatingWorld = run startedWorld [TimerFires 31000 (Inr 19) True]"

definition faultedWorld :: world where
  "faultedWorld =
     run heatingWorld
       [TimerFires 34000 (Inl ''sensor'') True,
        TimerFires 37000 (Inl ''sensor'') True,
        TimerFires 40000 (Inl ''sensor'') True]"

text \<open>The bridge initialised and connected, then the thermostat started as above.\<close>

definition connectedWorld :: world where
  "connectedWorld =
     run (initialWorld 0)
       [InitializeMqtt None None, ClientEmits 500 Connect,
        StartThermostat 1000 (Inr 21) noConfig]"

text \<open>The loop started as above, then the setpoint raised to 25 degrees.\<close>

definition warmWorld :: world where
  "warmWorld = run startedWorld [SetTargetTemperature 2000 (Inr 19) True None 25]"

text \<open>
  The loop started with target 19.1 and hysteresis 0.2 while the sensor shows 18900
  millidegrees, each number the double that JavaScript holds.
\<close>

definition coolWorld :: world where
  "coolWorld =
     run (initialWorld 0)
       [StartThermostat 1000 (Inr (sensorValue 18900))
          \<lparr>p_targetTemperature = Some (toDouble 19.1), p_hysteresis = Some (toDouble 0.2),
           p_checkIntervalMs = None, p_maxConsecutiveErrors = None\<rparr>]"

text \<open>The loop started with the maximum of consecutive errors set to 4.\<close>

definition strictWorld :: world where
  "strictWorld =
     run (initialWorld 0)
       [StartThermostat 1000 (Inr 19)
          \<lparr>p_targetTemperature = None, p_hysteresis = None,
           p_checkIntervalMs = None, p_maxConsecutiveErrors = Some 4\<rparr>]"

subsection \<open>Auxiliary notions for the minimum-action interval\<close>

text \<open>
  \<open>gated l ts\<close>: each time of \<open>ts\<close> lies at least 30 s after the one before it, the
  first at least 30 s after \<open>l\<close>. \<open>evenCount\<close>: the maximum is the default 5 and the
  error counter is even, as it is after every successful read and after every failed
  tick that follows one.
\<close>

fun gated :: "int \<Rightarrow> int list \<Rightarrow> bool" where
  "gated l [] = True"
| "gated l (t # ts) = (t - l \<ge> 30000 \<and> gated t ts)"

definition evenCount :: "world \<Rightarrow> bool" where
  "evenCount w \<longleftrightarrow> maxConsecutiveErrors (thermostatConfig w) = 5
      \<and> even (consecutiveErrors (thermostatState w))"

section \<open>Unfolding rules and the example runs, evaluated\<close>

lemmas relay_defs = turnOnRelay_def turnOffRelay_def getRelayState_def

lemmas publish_defs = publishMessage_def publishSetpointUpdate_def publishModeUpdate_def

lemmas loop_defs = resetErrorCounter_def notifyCriticalError_def handleSensorError_def
  updateCurrentState_def controlHeating_def stopThermostat_def tick_def timerFires_def
  startThermostat_def minActionInterval_def spreadConfig_def DEFAULT_CONFIG_def noConfig_def

lemmas bridge_defs = DEFAULT_MQTT_CONFIG_def spreadMqttConfig_def publishThermostatStatus_def
  setupSubscriptions_def stopMqtt_def initializeMqtt_def onConnect_def onReconnect_def
  clientEmits_def publishTimerFires_def

subsection \<open>Rounding to a double\<close>

lemma pow2_powr: "pow2 k = 2 powr (of_int k)"
proof (cases "0 \<le> k")
  case True
  then have "2 powr (of_int k) = (2::real) powr (real (nat k))" by simp
  also have "\<dots> = 2 ^ nat k" by (simp add: powr_realpow)
  finally show ?thesis using True by (simp add: pow2_def)
next
  case False
  then have "(2::real) powr (of_int k) = 2 powr (- real (nat (- k)))" by simp
  also have "\<dots> = inverse (2 powr (real (nat (- k))))" by (simp only: powr_minus)
  also have "\<dots> = inverse (2 ^ nat (- k))" by (simp only: powr_realpow [of 2, OF zero_less_numeral])
  finally show ?thesis using False by (simp add: pow2_def)
qed

lemma pow2_pos: "0 < pow2 k"
  by (simp add: pow2_powr)

lemma pow2_add: "pow2 (a + b) = pow2 a * pow2 b"
  by (simp add: pow2_powr powr_add)

lemma pow2_multiple:
  assumes "a \<le> b"
  shows "pow2 b = 2 ^ nat (b - a) * pow2 a"
proof -
  have "pow2 b = pow2 ((b - a) + a)" by simp
  also have "\<dots> = pow2 (b - a) * pow2 a" by (simp only: pow2_add)
  also have "pow2 (b - a) = 2 ^ nat (b - a)" using assms by (simp add: pow2_def)
  finally show ?thesis .
qed

lemma binade_mono:
  assumes "0 < x" and "x \<le> y"
  shows "binade x \<le> binade y"
proof -
  have "log 2 x \<le> log 2 y" using assms by simp
  then have "\<lfloor>log 2 x\<rfloor> \<le> \<lfloor>log 2 y\<rfloor>" by (rule floor_mono)
  then show ?thesis using assms by (simp add: binade_def)
qed

lemma roundTiesToEven_le_ceiling: "roundTiesToEven y \<le> \<lceil>y\<rceil>"
proof -
  have "\<lfloor>y\<rfloor> \<le> \<lceil>y\<rceil>" by (rule floor_le_ceiling)
  moreover have "\<lfloor>y\<rfloor> + 1 \<le> \<lceil>y\<rceil>" if "y - of_int \<lfloor>y\<rfloor> \<ge> 1 / 2"
  proof -
    from that have "of_int \<lfloor>y\<rfloor> < y" by linarith
    then show ?thesis by linarith
  qed
  ultimately show ?thesis
    unfolding roundTiesToEven_def Let_def by (auto simp add: not_less)
qed

lemma binade_eq:
  assumes "pow2 k \<le> \<bar>x\<bar>" and "\<bar>x\<bar> < pow2 (k + 1)" and "- 1022 \<le> k"
  shows "binade x = k"
proof -
  have pos: "0 < \<bar>x\<bar>" using assms(1) pow2_pos [of k] by linarith
  have "\<lfloor>log 2 \<bar>x\<bar>\<rfloor> = k"
    using assms(1,2) floor_log_eq_powr_iff [of "\<bar>x\<bar>" 2 k] pos
    by (simp add: pow2_powr)
  then show ?thesis using assms(3) by (simp add: binade_def)
qed

lemma toDouble_eval:
  assumes "pow2 k \<le> \<bar>x\<bar>" and "\<bar>x\<bar> < pow2 (k + 1)" and "- 1022 \<le> k"
  shows "toDouble x = of_int (roundTiesToEven (x / pow2 (k - 52))) * pow2 (k - 52)"
proof -
  have "x \<noteq> 0" using assms(1) pow2_pos [of k] by auto
  then show ?thesis
    by (simp add: toDouble_def ulp_def binade_eq [OF assms])
qed

text \<open>Rounding never passes a double that lies above the exact value.\<close>

lemma toDouble_le_double:
  assumes "isDouble c" and "0 \<le> r" and "r \<le> c"
  shows "toDouble r \<le> c"
proof (cases "r = 0")
  case True
  then show ?thesis using assms by (simp add: toDouble_def)
next
  case False
  then have r: "0 < r" using assms(2) by simp
  then have c: "0 < c" using assms(3) by simp
  define kc where "kc = roundTiesToEven (c / ulp c)"
  have ceq: "c = of_int kc * ulp c"
    using assms(1) c by (simp add: isDouble_def toDouble_def kc_def)
  have "binade r \<le> binade c" using r assms(3) by (rule binade_mono)
  then have "binade r - 52 \<le> binade c - 52" by simp
  from pow2_multiple [OF this]
  obtain n :: nat where u: "ulp c = 2 ^ n * ulp r" by (auto simp add: ulp_def)
  define K :: int where "K = kc * 2 ^ n"
  have "c = of_int kc * ulp c" by (rule ceq)
  also have "\<dots> = of_int kc * (2 ^ n * ulp r)" by (simp only: u)
  also have "\<dots> = of_int K * ulp r" by (simp add: K_def)
  finally have cK: "c = of_int K * ulp r" .
  have up: "0 < ulp r" by (simp add: ulp_def pow2_pos)
  have "r / ulp r \<le> of_int K"
    using assms(3) up by (simp add: cK pos_divide_le_eq)
  then have "\<lceil>r / ulp r\<rceil> \<le> K" by (simp add: ceiling_le_iff)
  with roundTiesToEven_le_ceiling [of "r / ulp r"]
  have "roundTiesToEven (r / ulp r) \<le> K" by linarith
  then have "of_int (roundTiesToEven (r / ulp r)) * ulp r \<le> of_int K * ulp r"
    using up by (simp add: mult_right_mono)
  then show ?thesis using False by (simp add: toDouble_def cK)
qed

lemma toDouble_41_2: "toDouble (41 / 2) = 41 / 2"
  by (simp add: toDouble_eval [where k = 4] pow2_def roundTiesToEven_def)


subsection \<open>The example runs\<close>

lemma startedWorld_eq:
  "startedWorld =
     (initialWorld 0)
       \<lparr>thermostatState :=
          \<lparr>currentTemperature = 19, targetTemperature = 22, hysteresis = 1.5,
           isHeating = False, lastUpdated = 1000, isRunning = True,
           lastError = None, consecutiveErrors = 0\<rparr>,
        thermostatInterval := Some 3000\<rparr>"
  by (simp add: startedWorld_def run_def initialWorld_def loop_defs relay_defs publish_defs)

lemma heatingWorld_eq:
  "heatingWorld =
     (initialWorld 0)
       \<lparr>thermostatState :=
          \<lparr>currentTemperature = 19, targetTemperature = 22, hysteresis = 1.5,
           isHeating = True, lastUpdated = 31000, isRunning = True,
           lastError = None, consecutiveErrors = 0\<rparr>,
        thermostatInterval := Some 3000,
        lastControlAction := 31000,
        relayState := True,
        relayCommands := [True]\<rparr>"
  by (simp add: heatingWorld_def startedWorld_eq run_def initialWorld_def loop_defs relay_defs
      toDouble_41_2)

lemma faultedWorld_eq:
  "faultedWorld =
     heatingWorld
       \<lparr>thermostatState :=
          \<lparr>currentTemperature = 19, targetTemperature = 22, hysteresis = 1.5,
           isHeating = True, lastUpdated = 31000, isRunning = False,
           lastError = Some (SensorError ''sensor''), consecutiveErrors = 6\<rparr>,
        thermostatInterval := None,
        criticalErrors := [SensorPaused, TooManyErrors 6]\<rparr>"
  by (simp add: faultedWorld_def run_def heatingWorld_eq initialWorld_def DEFAULT_CONFIG_def
      timerFires_def tick_def updateCurrentState_def handleSensorError_def
      notifyCriticalError_def stopThermostat_def)

lemma warmWorld_eq:
  "warmWorld =
     startedWorld
       \<lparr>thermostatState :=
          \<lparr>currentTemperature = 19, targetTemperature = 25, hysteresis = 1.5,
           isHeating = False, lastUpdated = 2000, isRunning = True,
           lastError = None, consecutiveErrors = 0\<rparr>,
        thermostatConfig := DEFAULT_CONFIG\<lparr>c_targetTemperature := 25\<rparr>,
        settingTargetTemperature := Some 25\<rparr>"
  by (simp add: warmWorld_def run_def startedWorld_eq initialWorld_def setTargetTemperature_def
      validateTemperatureValue_def loop_defs relay_defs publish_defs)

lemma connectedWorld_eq:
  "connectedWorld =
     (initialWorld 0)
       \<lparr>thermostatState :=
          \<lparr>currentTemperature = 21, targetTemperature = 22, hysteresis = 1.5,
           isHeating = False, lastUpdated = 1000, isRunning = True,
           lastError = None, consecutiveErrors = 0\<rparr>,
        thermostatInterval := Some 3000,
        serviceState :=
          \<lparr>isConnected = True, isEnabled = True, lastPublishTime = Some 500,
           m_lastError = None, reconnectAttempts = 0, maxReconnectAttempts = 10\<rparr>,
        mqttClient := True,
        publishInterval := Some 10000,
        subscriptions := [SetpointSet, RelaySet, ModeSet],
        messageListeners := 1,
        published :=
          [(Online, JBool True, 500), (Temperature, JNum 0, 500),
           (Relay, JBool False, 500), (Setpoint, JNum 22, 500),
           (Mode, JStr ''off'', 500), (Mode, JStr ''heat'', 1000)]\<rparr>"
  by (simp add: connectedWorld_def run_def initialWorld_def loop_defs relay_defs publish_defs
      bridge_defs)

lemma toDouble_19_1: "toDouble 19.1 = 2688086027586765 / 140737488355328"
  by (simp add: toDouble_eval [where k = 4] pow2_def roundTiesToEven_def)

lemma toDouble_0_2:
  "toDouble 0.2 = 3602879701896397 / 18014398509481984"
  "toDouble (1 / 5) = 3602879701896397 / 18014398509481984"
  by (simp_all add: toDouble_eval [where k = "-3"] pow2_def roundTiesToEven_def)

lemma toDouble_18_9: "toDouble 18.9 = 2659938529915699 / 140737488355328"
  by (simp add: toDouble_eval [where k = 4] pow2_def roundTiesToEven_def)

lemma toDouble_22_1: "toDouble 22.1 = 3110298492652749 / 140737488355328"
  by (simp add: toDouble_eval [where k = 4] pow2_def roundTiesToEven_def)

lemma toDouble_19_1_minus_0_2:
  "toDouble (toDouble 19.1 - toDouble 0.2) = 5319877059831399 / 281474976710656"
  by (simp add: toDouble_19_1 toDouble_0_2 toDouble_eval [where k = 4] pow2_def
      roundTiesToEven_def)

lemma isDouble_examples:
  "isDouble 19" "isDouble 21" "isDouble (toDouble 18.9)" "isDouble (toDouble 22.1)"
  by (simp_all add: isDouble_def toDouble_18_9 toDouble_22_1 toDouble_eval [where k = 4]
      pow2_def roundTiesToEven_def)

lemma sensorValue_18900: "sensorValue 18900 = toDouble 18.9"
  by (simp add: sensorValue_def)

lemma coolWorld_eq:
  "coolWorld =
     (initialWorld 0)
       \<lparr>thermostatState :=
          \<lparr>currentTemperature = toDouble 18.9, targetTemperature = 22, hysteresis = 1.5,
           isHeating = False, lastUpdated = 1000, isRunning = True,
           lastError = None, consecutiveErrors = 0\<rparr>,
        thermostatConfig :=
          \<lparr>c_targetTemperature = toDouble 19.1, c_hysteresis = toDouble 0.2,
           checkIntervalMs = 3000, maxConsecutiveErrors = 5\<rparr>,
        thermostatInterval := Some 3000\<rparr>"
  by (simp add: coolWorld_def run_def initialWorld_def loop_defs relay_defs publish_defs
      sensorValue_18900)

lemma strictWorld_eq:
  "strictWorld =
     startedWorld\<lparr>thermostatConfig := DEFAULT_CONFIG\<lparr>maxConsecutiveErrors := 4\<rparr>\<rparr>"
  by (simp add: strictWorld_def startedWorld_eq run_def initialWorld_def loop_defs relay_defs
      publish_defs)

section \<open>The safety shutdown\<close>

text \<open>
  One tick at which the sensor fails adds two to \<open>consecutiveErrors\<close>: one in
  \<^verbatim>\<open>handleSensorError\<close>, one in the timer callback.
\<close>

lemma timerFires_failed_read_counts_twice:
  assumes "thermostatInterval w \<noteq> None"
    and "consecutiveErrors (thermostatState w) + 2 < maxConsecutiveErrors (thermostatConfig w)"
  shows "timerFires now (Inl msg) gpioOk w =
           w\<lparr>thermostatState := (thermostatState w)
                \<lparr>consecutiveErrors := consecutiveErrors (thermostatState w) + 2,
                 lastError := Some (SensorError msg)\<rparr>\<rparr>"
  using assms
  by (auto simp add: timerFires_def tick_def updateCurrentState_def handleSensorError_def Let_def)

text \<open>
  When \<^verbatim>\<open>handleSensorError\<close> reaches the maximum it clears \<open>isRunning\<close> and the
  timer; the \<^verbatim>\<open>stopThermostat\<close> that the callback then calls finds the loop not
  running and returns without touching the relay.
\<close>

lemma timerFires_failed_read_pauses:
  assumes "thermostatInterval w \<noteq> None"
    and "consecutiveErrors (thermostatState w) + 1 \<ge> maxConsecutiveErrors (thermostatConfig w)"
  shows "timerFires now (Inl msg) gpioOk w =
           w\<lparr>thermostatState := (thermostatState w)
                \<lparr>consecutiveErrors := consecutiveErrors (thermostatState w) + 2,
                 lastError := Some (SensorError msg), isRunning := False\<rparr>,
              thermostatInterval := None,
              criticalErrors := criticalErrors w @
                [SensorPaused, TooManyErrors (consecutiveErrors (thermostatState w) + 2)]\<rparr>"
  using assms
  by (auto simp add: timerFires_def tick_def updateCurrentState_def handleSensorError_def
      notifyCriticalError_def stopThermostat_def Let_def)

text \<open>
  Claim C1 says that a running loop with \<open>consecutiveErrors = 0\<close> shuts down after
  exactly five consecutive failed reads, and not before, and that the shutdown commands
  the actuator off, cancels the timer and notifies the observers. The code does
  otherwise. From every running state with an armed timer, no counted error and the
  default maximum of 5: after two failed ticks the loop still runs with the counter at
  4; the third failed tick clears \<open>isRunning\<close> and the timer with the counter at 6 and
  notifies the observers twice, but issues no relay command, so the relay and
  \<open>isHeating\<close> stay as they were; after that the timer fires no more.
\<close>

theorem three_failed_ticks_pause_without_relay_command:
  assumes "isRunning (thermostatState w)" and "thermostatInterval w \<noteq> None"
    and "consecutiveErrors (thermostatState w) = 0"
    and "maxConsecutiveErrors (thermostatConfig w) = 5"
  shows "let w2 = timerFires t2 (Inl m2) g2 (timerFires t1 (Inl m1) g1 w);
             w3 = timerFires t3 (Inl m3) g3 w2
         in isRunning (thermostatState w2) \<and> thermostatInterval w2 \<noteq> None
          \<and> consecutiveErrors (thermostatState w2) = 4
          \<and> \<not> isRunning (thermostatState w3) \<and> thermostatInterval w3 = None
          \<and> consecutiveErrors (thermostatState w3) = 6
          \<and> relayCommands w3 = relayCommands w \<and> relayState w3 = relayState w
          \<and> isHeating (thermostatState w3) = isHeating (thermostatState w)
          \<and> criticalErrors w3 = criticalErrors w @ [SensorPaused, TooManyErrors 6]
          \<and> timerFires t4 r4 g4 w3 = w3"
proof -
  define w1 where "w1 = timerFires t1 (Inl m1) g1 w"
  define w2 where "w2 = timerFires t2 (Inl m2) g2 w1"
  define w3 where "w3 = timerFires t3 (Inl m3) g3 w2"
  have e1: "w1 = w\<lparr>thermostatState := (thermostatState w)
                \<lparr>consecutiveErrors := 2, lastError := Some (SensorError m1)\<rparr>\<rparr>"
    unfolding w1_def using assms by (simp add: timerFires_failed_read_counts_twice)
  have e2: "w2 = w1\<lparr>thermostatState := (thermostatState w1)
                \<lparr>consecutiveErrors := 4, lastError := Some (SensorError m2)\<rparr>\<rparr>"
    unfolding w2_def using assms e1 by (simp add: timerFires_failed_read_counts_twice)
  have e3: "w3 = w2\<lparr>thermostatState := (thermostatState w2)
                \<lparr>consecutiveErrors := 6, lastError := Some (SensorError m3), isRunning := False\<rparr>,
              thermostatInterval := None,
              criticalErrors := criticalErrors w2 @ [SensorPaused, TooManyErrors 6]\<rparr>"
    unfolding w3_def using assms e1 e2 by (simp add: timerFires_failed_read_pauses)
  have "timerFires t4 r4 g4 w3 = w3"
    by (simp add: e3 timerFires_def)
  then show ?thesis
    using assms e1 e2 e3
    unfolding w1_def [symmetric] w2_def [symmetric] w3_def [symmetric] Let_def
    by simp
qed

theorem three_failed_ticks_pause_without_relay_command_witness:
  "isRunning (thermostatState heatingWorld) \<and> thermostatInterval heatingWorld \<noteq> None
   \<and> consecutiveErrors (thermostatState heatingWorld) = 0
   \<and> maxConsecutiveErrors (thermostatConfig heatingWorld) = 5
   \<and> (let w3 = timerFires 40000 (Inl ''sensor'') True
                  (timerFires 37000 (Inl ''sensor'') True
                     (timerFires 34000 (Inl ''sensor'') True heatingWorld))
       in \<not> isRunning (thermostatState w3) \<and> consecutiveErrors (thermostatState w3) = 6
        \<and> relayState w3 \<and> relayCommands w3 = [True] \<and> isHeating (thermostatState w3))"
proof -
  have h: "isRunning (thermostatState heatingWorld)" "thermostatInterval heatingWorld \<noteq> None"
    "consecutiveErrors (thermostatState heatingWorld) = 0"
    "maxConsecutiveErrors (thermostatConfig heatingWorld) = 5"
    by (simp_all add: heatingWorld_eq initialWorld_def DEFAULT_CONFIG_def)
  show ?thesis
    using h three_failed_ticks_pause_without_relay_command
      [OF h, of 37000 "''sensor''" True 34000 "''sensor''" True 40000 "''sensor''" True]
    by (simp add: Let_def heatingWorld_eq initialWorld_def)
qed

text \<open>
  Claim C2 says that in every reachable state \<open>isHeating\<close> implies \<open>isRunning\<close>. The
  run \<open>faultedWorld\<close> from the initial state (start, one tick that switches the heating
  on, three ticks at which the sensor fails) ends in a state where the loop is stopped
  while \<open>isHeating\<close> holds and the relay is on.
\<close>

theorem faultedWorld_heating_while_stopped:
  "isHeating (thermostatState faultedWorld) \<and> \<not> isRunning (thermostatState faultedWorld)
   \<and> relayState faultedWorld \<and> thermostatInterval faultedWorld = None"
  by (simp add: faultedWorld_def run_def heatingWorld_eq initialWorld_def DEFAULT_CONFIG_def
      timerFires_failed_read_counts_twice timerFires_failed_read_pauses)

section \<open>The relay command received over MQTT\<close>

text \<open>
  Claim C10. For a relay command whose payload is an object with a boolean \<open>value\<close>,
  \<^verbatim>\<open>handleRelayCommand\<close> commands the actuator to that value (the relay takes it
  when the GPIO write succeeds) and republishes the value on the relay state topic when
  the client is connected. It asks neither whether the loop runs nor how long ago the
  last control action was, and it changes no field of the thermostat state, nor the
  configuration, \<open>lastControlAction\<close> or the timer.
\<close>

theorem handleRelayCommand_effect:
  assumes "map_of kvs ''value'' = Some (JBool v)"
  shows "let w' = handleRelayCommand now gpioOk (Some (JObj kvs)) w
         in relayCommands w' = relayCommands w @ [v]
          \<and> relayState w' = (if gpioOk then v else relayState w)
          \<and> published w' = published w @
               (if mqttClient w \<and> isConnected (serviceState w) then [(Relay, JBool v, now)] else [])
          \<and> thermostatState w' = thermostatState w
          \<and> thermostatConfig w' = thermostatConfig w
          \<and> lastControlAction w' = lastControlAction w
          \<and> thermostatInterval w' = thermostatInterval w"
  using assms by (simp add: handleRelayCommand_def parseJsonPayload_def relay_defs publish_defs Let_def)

theorem handleRelayCommand_effect_witness:
  "map_of [(''value'', JBool True)] ''value'' = Some (JBool True)
   \<and> (let w' = handleRelayCommand 1500 True (Some (JObj [(''value'', JBool True)])) connectedWorld
      in relayCommands w' = [True] \<and> relayState w'
       \<and> last (published w') = (Relay, JBool True, 1500)
       \<and> thermostatState w' = thermostatState connectedWorld
       \<and> \<not> isHeating (thermostatState w')
       \<and> lastControlAction w' = 0)"
  using handleRelayCommand_effect [where kvs = "[(''value'', JBool True)]" and v = True
      and now = 1500 and gpioOk = True and w = connectedWorld]
  by (simp add: Let_def connectedWorld_eq initialWorld_def)

section \<open>The published mode\<close>

lemma published_publishThermostatStatus:
  assumes "mqttClient w" and "isConnected (serviceState w)"
  shows "published (publishThermostatStatus now w) =
           published w @
             [(Temperature, JNum (currentTemperature (thermostatState w)), now),
              (Relay, JBool (relayState w), now),
              (Setpoint, JNum (targetTemperature (thermostatState w)), now),
              (Mode, JStr (if isRunning (thermostatState w) then ''heat'' else ''off''), now)]"
  using assms by (simp add: publishThermostatStatus_def publishMessage_def getRelayState_def Let_def)

lemma publishThermostatStatus_disconnected:
  "\<not> isConnected (serviceState w) \<Longrightarrow> publishThermostatStatus now w = w"
  by (simp add: publishThermostatStatus_def)

lemma stopThermostat_bridge:
  "mqttClient (fst (stopThermostat now gpioOk w)) = mqttClient w"
  "serviceState (fst (stopThermostat now gpioOk w)) = serviceState w"
  by (simp_all add: stopThermostat_def relay_defs publish_defs Let_def split: prod.splits)

lemma stopThermostat_stops:
  "isRunning (thermostatState w) \<Longrightarrow> thermostatInterval w \<noteq> None \<Longrightarrow>
     \<not> isRunning (thermostatState (fst (stopThermostat now gpioOk w)))"
  by (simp add: stopThermostat_def relay_defs publish_defs Let_def split: prod.splits)

text \<open>
  Claim C8. A state publish on a connected client emits exactly one mode message, whose
  value is \<open>heat\<close> when \<open>isRunning\<close> holds and \<open>off\<close> when it does not; the periodic
  timer runs that publish; after \<^verbatim>\<open>stopThermostat\<close> on a running loop the mode
  published is \<open>off\<close>; and the mode messages do not depend on \<open>isHeating\<close>.
\<close>

theorem mode_follows_isRunning:
  "(mqttClient w \<and> isConnected (serviceState w) \<longrightarrow>
      modeMessages (publishThermostatStatus now w) =
        modeMessages w @ [JStr (if isRunning (thermostatState w) then ''heat'' else ''off'')]
    \<and> (publishInterval w \<noteq> None \<longrightarrow>
          publishTimerFires now w = publishThermostatStatus now w)
    \<and> (isRunning (thermostatState w) \<and> thermostatInterval w \<noteq> None \<longrightarrow>
          last (modeMessages (publishThermostatStatus now' (fst (stopThermostat now gpioOk w))))
            = JStr ''off''))
   \<and> modeMessages (publishThermostatStatus now
         (w\<lparr>thermostatState := (thermostatState w)\<lparr>isHeating := h\<rparr>\<rparr>))
       = modeMessages (publishThermostatStatus now w)"
proof -
  have periodic: "modeMessages (publishThermostatStatus now w) =
        modeMessages w @ [JStr (if isRunning (thermostatState w) then ''heat'' else ''off'')]"
    if "mqttClient w" and "isConnected (serviceState w)" for w now
    using that by (simp add: modeMessages_def published_publishThermostatStatus)
  have timer: "publishInterval w \<noteq> None \<longrightarrow>
          publishTimerFires now w = publishThermostatStatus now w"
    by (simp add: publishTimerFires_def)
  have stopped: "last (modeMessages (publishThermostatStatus now' (fst (stopThermostat now gpioOk w))))
            = JStr ''off''"
    if "mqttClient w" and "isConnected (serviceState w)"
      and "isRunning (thermostatState w)" and "thermostatInterval w \<noteq> None"
    using that periodic [of "fst (stopThermostat now gpioOk w)" now']
    by (simp add: stopThermostat_bridge stopThermostat_stops)
  have indep: "modeMessages (publishThermostatStatus now
         (w\<lparr>thermostatState := (thermostatState w)\<lparr>isHeating := h\<rparr>\<rparr>))
       = modeMessages (publishThermostatStatus now w)"
  proof (cases "mqttClient w \<and> isConnected (serviceState w)")
    case True
    then show ?thesis
      using periodic [of w now]
        periodic [of "w\<lparr>thermostatState := (thermostatState w)\<lparr>isHeating := h\<rparr>\<rparr>" now]
      by (simp add: modeMessages_def)
  next
    case False
    then show ?thesis
      by (auto simp add: publishThermostatStatus_def publishMessage_def modeMessages_def Let_def)
  qed
  show ?thesis
    using periodic [of w now] timer stopped indep by blast
qed

theorem mode_follows_isRunning_witness:
  "mqttClient connectedWorld \<and> isConnected (serviceState connectedWorld)
   \<and> isRunning (thermostatState connectedWorld) \<and> \<not> isHeating (thermostatState connectedWorld)
   \<and> publishInterval connectedWorld \<noteq> None \<and> thermostatInterval connectedWorld \<noteq> None
   \<and> last (modeMessages (publishTimerFires 10500 connectedWorld)) = JStr ''heat''
   \<and> last (modeMessages (publishThermostatStatus 10500 (fst (stopThermostat 2000 True connectedWorld))))
        = JStr ''off''"
  using mode_follows_isRunning [where w = connectedWorld and now = 10500]
    mode_follows_isRunning [where w = connectedWorld and now = 2000 and now' = 10500
      and gpioOk = True]
  by (simp add: connectedWorld_eq initialWorld_def)

section \<open>The connection state machine of the bridge\<close>

text \<open>Without a client and without a publish timer the bridge does nothing by itself.\<close>

lemma bridge_quiet:
  assumes "\<not> mqttClient w" and "publishInterval w = None"
  shows "list_all bridgeOwn es \<Longrightarrow> run w es = w"
proof (induction es)
  case Nil
  then show ?case by (simp add: run_def)
next
  case (Cons e es)
  then have "bridgeOwn e" and rest: "run w es = w" by simp_all
  then have "step w e = w"
    using assms by (cases e) (simp_all add: clientEmits_def publishTimerFires_def)
  then show ?case using rest by (simp add: run_def)
qed

text \<open>
  Claim C9. A \<^verbatim>\<open>connect\<close> event sets \<open>reconnectAttempts\<close> to 0. A \<^verbatim>\<open>reconnect\<close> event
  that leaves the counter below \<open>maxReconnectAttempts\<close> only counts. The
  \<^verbatim>\<open>reconnect\<close> event with which the counter reaches \<open>maxReconnectAttempts\<close> disables
  the bridge: \<open>isEnabled\<close> is false, the publish timer is cancelled, the client is
  ended and released, and no event of the client or of the publish timer changes the
  state any more, until \<^verbatim>\<open>initializeMqtt\<close> is called again.
\<close>

theorem reconnect_attempts:
  "(mqttClient w \<longrightarrow>
      reconnectAttempts (serviceState (clientEmits now Connect w)) = 0
      \<and> isConnected (serviceState (clientEmits now Connect w)))
   \<and> (mqttClient w
        \<and> reconnectAttempts (serviceState w) + 1 < maxReconnectAttempts (serviceState w) \<longrightarrow>
        clientEmits now Reconnect w =
          w\<lparr>serviceState :=
              (serviceState w)\<lparr>reconnectAttempts := reconnectAttempts (serviceState w) + 1\<rparr>\<rparr>)
   \<and> (mqttClient w
        \<and> reconnectAttempts (serviceState w) + 1 \<ge> maxReconnectAttempts (serviceState w) \<longrightarrow>
        (let w' = clientEmits now Reconnect w
         in \<not> isEnabled (serviceState w') \<and> publishInterval w' = None
          \<and> \<not> mqttClient w' \<and> \<not> isConnected (serviceState w')
          \<and> (\<forall>es. list_all bridgeOwn es \<longrightarrow> run w' es = w')
          \<and> isEnabled (serviceState (initializeMqtt None None w'))
          \<and> mqttClient (initializeMqtt None None w')))"
proof -
  have connect: "mqttClient w \<longrightarrow>
      reconnectAttempts (serviceState (clientEmits now Connect w)) = 0
      \<and> isConnected (serviceState (clientEmits now Connect w))"
    by (simp add: clientEmits_def onConnect_def publishThermostatStatus_def setupSubscriptions_def
        publishMessage_def Let_def)
  have below: "mqttClient w
        \<and> reconnectAttempts (serviceState w) + 1 < maxReconnectAttempts (serviceState w) \<longrightarrow>
        clientEmits now Reconnect w =
          w\<lparr>serviceState :=
              (serviceState w)\<lparr>reconnectAttempts := reconnectAttempts (serviceState w) + 1\<rparr>\<rparr>"
    by (simp add: clientEmits_def onReconnect_def Let_def)
  have reached: "\<not> isEnabled (serviceState w') \<and> publishInterval w' = None
          \<and> \<not> mqttClient w' \<and> \<not> isConnected (serviceState w')
          \<and> (\<forall>es. list_all bridgeOwn es \<longrightarrow> run w' es = w')
          \<and> isEnabled (serviceState (initializeMqtt None None w'))
          \<and> mqttClient (initializeMqtt None None w')"
    if "mqttClient w"
      and "reconnectAttempts (serviceState w) + 1 \<ge> maxReconnectAttempts (serviceState w)"
      and "w' = clientEmits now Reconnect w" for w'
  proof -
    have off: "\<not> isEnabled (serviceState w') \<and> publishInterval w' = None
          \<and> \<not> mqttClient w' \<and> \<not> isConnected (serviceState w')"
      using that by (simp add: clientEmits_def onReconnect_def stopMqtt_def publishMessage_def Let_def)
    then have "\<forall>es. list_all bridgeOwn es \<longrightarrow> run w' es = w'"
      using bridge_quiet by blast
    moreover have "isEnabled (serviceState (initializeMqtt None None w'))
          \<and> mqttClient (initializeMqtt None None w')"
      by (simp add: initializeMqtt_def)
    ultimately show ?thesis using off by blast
  qed
  show ?thesis
    using connect below reached unfolding Let_def by blast
qed

theorem reconnect_attempts_witness:
  "(let w9 = run connectedWorld
               [ClientEmits 3000 Close,
                ClientEmits 8000 Reconnect, ClientEmits 13000 Reconnect,
                ClientEmits 18000 Reconnect, ClientEmits 23000 Reconnect,
                ClientEmits 28000 Reconnect, ClientEmits 33000 Reconnect,
                ClientEmits 38000 Reconnect, ClientEmits 43000 Reconnect,
                ClientEmits 48000 Reconnect];
        w10 = clientEmits 53000 Reconnect w9
    in mqttClient w9 \<and> isEnabled (serviceState w9) \<and> publishInterval w9 \<noteq> None
     \<and> reconnectAttempts (serviceState w9) = 9 \<and> maxReconnectAttempts (serviceState w9) = 10
     \<and> reconnectAttempts (serviceState (clientEmits 50000 Connect w9)) = 0
     \<and> \<not> isEnabled (serviceState w10) \<and> publishInterval w10 = None \<and> \<not> mqttClient w10
     \<and> run w10 [ClientEmits 58000 Reconnect, PublishTimerFires 60000] = w10)"
proof -
  define w9 where "w9 = run connectedWorld
               [ClientEmits 3000 Close,
                ClientEmits 8000 Reconnect, ClientEmits 13000 Reconnect,
                ClientEmits 18000 Reconnect, ClientEmits 23000 Reconnect,
                ClientEmits 28000 Reconnect, ClientEmits 33000 Reconnect,
                ClientEmits 38000 Reconnect, ClientEmits 43000 Reconnect,
                ClientEmits 48000 Reconnect]"
  have w9: "w9 = connectedWorld\<lparr>serviceState :=
              (serviceState connectedWorld)\<lparr>isConnected := False, reconnectAttempts := 9\<rparr>\<rparr>"
    by (simp add: w9_def run_def connectedWorld_eq initialWorld_def clientEmits_def onReconnect_def)
  have h: "mqttClient w9" "isEnabled (serviceState w9)" "publishInterval w9 \<noteq> None"
    "reconnectAttempts (serviceState w9) = 9" "maxReconnectAttempts (serviceState w9) = 10"
    by (simp_all add: w9 connectedWorld_eq initialWorld_def)
  have q: "list_all bridgeOwn [ClientEmits 58000 Reconnect, PublishTimerFires 60000]"
    by simp
  show ?thesis
    unfolding w9_def [symmetric] Let_def
    using h q reconnect_attempts [where w = w9 and now = 50000]
      reconnect_attempts [where w = w9 and now = 53000]
    by (simp add: Let_def)
qed

section \<open>Changing the setpoint\<close>

lemma controlHeating_keeps:
  "thermostatConfig (controlHeating now gpioOk w) = thermostatConfig w"
  "targetTemperature (thermostatState (controlHeating now gpioOk w)) = targetTemperature (thermostatState w)"
  "settingTargetTemperature (controlHeating now gpioOk w) = settingTargetTemperature w"
  "thermostatInterval (controlHeating now gpioOk w) = thermostatInterval w"
  "consecutiveErrors (thermostatState (controlHeating now gpioOk w)) = consecutiveErrors (thermostatState w)"
  "isRunning (thermostatState (controlHeating now gpioOk w)) = isRunning (thermostatState w)"
  by (simp_all add: controlHeating_def relay_defs Let_def)






section \<open>Stopping the loop\<close>




section \<open>The hysteresis decision\<close>

text \<open>
  Claim C4. For a configured target in [5,30] and hysteresis in (0,5], and a current
  temperature that is a double (as every reading is), \<^verbatim>\<open>controlHeating\<close> commands
  the actuator on only when \<open>isHeating\<close> is false and the current temperature is below
  target minus hysteresis, commands it off only when \<open>isHeating\<close> is true and the
  current temperature is at least the target, issues no other command, and issues none
  (and changes neither relay nor \<open>isHeating\<close>) when the temperature lies in the deadband
  from target minus hysteresis up to, but excluding, the target. Target minus
  hysteresis is the exact difference of the two doubles here: the code compares with
  the rounded difference, and rounding never passes a double that lies at or above the
  exact one (\<open>toDouble_le_double\<close>). When
  the loop runs and 30 s have passed since the last control action, the command is
  issued below the rounded difference and from the target upwards.
\<close>

theorem controlHeating_hysteresis:
  assumes "5 \<le> target" and "target \<le> 30" and "0 < hyst" and "hyst \<le> 5"
    and "c_targetTemperature (thermostatConfig w) = target"
    and "c_hysteresis (thermostatConfig w) = hyst"
    and "isDouble (currentTemperature (thermostatState w))"
  shows "let w' = controlHeating now gpioOk w;
             cur = currentTemperature (thermostatState w);
             heating = isHeating (thermostatState w);
             gateOpen = (isRunning (thermostatState w) \<and> now - lastControlAction w \<ge> 30000)
         in (relayCommands w' = relayCommands w @ [True] \<longrightarrow> \<not> heating \<and> cur < target - hyst)
          \<and> (relayCommands w' = relayCommands w @ [False] \<longrightarrow> heating \<and> cur \<ge> target)
          \<and> (relayCommands w' \<noteq> relayCommands w \<longrightarrow>
                relayCommands w' = relayCommands w @ [True] \<or> relayCommands w' = relayCommands w @ [False])
          \<and> (target - hyst \<le> cur \<and> cur < target \<longrightarrow>
                relayCommands w' = relayCommands w \<and> relayState w' = relayState w
                \<and> isHeating (thermostatState w') = heating)
          \<and> (gateOpen \<and> \<not> heating \<and> cur < toDouble (target - hyst) \<longrightarrow>
                relayCommands w' = relayCommands w @ [True])
          \<and> (gateOpen \<and> heating \<and> cur \<ge> target \<longrightarrow> relayCommands w' = relayCommands w @ [False])"
proof -
  have "0 \<le> target - hyst" using assms(1,4) by simp
  then have rounded: "toDouble (target - hyst) \<le> currentTemperature (thermostatState w)"
    if "target - hyst \<le> currentTemperature (thermostatState w)"
    using toDouble_le_double [OF assms(7) _ that] by simp
  then have below: "currentTemperature (thermostatState w) < target - hyst"
    if "currentTemperature (thermostatState w) < toDouble (target - hyst)"
    using that by fastforce
  show ?thesis
    using assms(5,6) rounded below
    by (auto simp add: controlHeating_def minActionInterval_def relay_defs Let_def)
qed

text \<open>
  The witness holds the scenario of the specification (target 22, hysteresis 1.5:
  on at 19, off at 22.1, nothing at 21) and a decision that rounding decides: at target
  19.1, hysteresis 0.2 and reading 18.9 the doubles satisfy 18.9 < 19.1 - 0.2, and the
  relay is commanded on.
\<close>

theorem controlHeating_hysteresis_witness:
  "(5::real) \<le> 22 \<and> (22::real) \<le> 30 \<and> (0::real) < 1.5 \<and> (1.5::real) \<le> 5
   \<and> c_targetTemperature (thermostatConfig startedWorld) = 22
   \<and> c_hysteresis (thermostatConfig startedWorld) = 1.5
   \<and> currentTemperature (thermostatState startedWorld) = 19 \<and> isDouble 19
   \<and> relayCommands (controlHeating 31000 True startedWorld) = [True]
   \<and> isDouble (toDouble 22.1)
   \<and> relayCommands
        (controlHeating 61000 True
           (heatingWorld\<lparr>thermostatState :=
              (thermostatState heatingWorld)\<lparr>currentTemperature := toDouble 22.1\<rparr>\<rparr>))
        = [True, False]
   \<and> isDouble 21
   \<and> relayCommands
        (controlHeating 61000 True
           (heatingWorld\<lparr>thermostatState :=
              (thermostatState heatingWorld)\<lparr>currentTemperature := 21\<rparr>\<rparr>)) = [True]
   \<and> 5 \<le> toDouble 19.1 \<and> toDouble 19.1 \<le> 30 \<and> 0 < toDouble 0.2 \<and> toDouble 0.2 \<le> 5
   \<and> c_targetTemperature (thermostatConfig coolWorld) = toDouble 19.1
   \<and> c_hysteresis (thermostatConfig coolWorld) = toDouble 0.2
   \<and> currentTemperature (thermostatState coolWorld) = toDouble 18.9
   \<and> isDouble (toDouble 18.9)
   \<and> toDouble 18.9 < toDouble 19.1 - toDouble 0.2
   \<and> relayCommands (controlHeating 31000 True coolWorld) = [True]"
proof -
  have a: "(5::real) \<le> 22" "(22::real) \<le> 30" "(0::real) < 1.5" "(1.5::real) \<le> 5"
    by simp_all
  have b: "5 \<le> toDouble 19.1" "toDouble 19.1 \<le> 30" "0 < toDouble 0.2" "toDouble 0.2 \<le> 5"
    by (simp_all add: toDouble_19_1 toDouble_0_2)
  have s: "c_targetTemperature (thermostatConfig startedWorld) = 22"
    "c_hysteresis (thermostatConfig startedWorld) = 1.5"
    "isDouble (currentTemperature (thermostatState startedWorld))"
    by (simp_all add: startedWorld_eq initialWorld_def DEFAULT_CONFIG_def isDouble_examples)
  let ?hot = "heatingWorld\<lparr>thermostatState :=
              (thermostatState heatingWorld)\<lparr>currentTemperature := toDouble 22.1\<rparr>\<rparr>"
  let ?mid = "heatingWorld\<lparr>thermostatState :=
              (thermostatState heatingWorld)\<lparr>currentTemperature := 21\<rparr>\<rparr>"
  have h: "c_targetTemperature (thermostatConfig ?hot) = 22"
    "c_hysteresis (thermostatConfig ?hot) = 1.5"
    "isDouble (currentTemperature (thermostatState ?hot))"
    by (simp_all add: heatingWorld_eq initialWorld_def DEFAULT_CONFIG_def isDouble_examples)
  have m: "c_targetTemperature (thermostatConfig ?mid) = 22"
    "c_hysteresis (thermostatConfig ?mid) = 1.5"
    "isDouble (currentTemperature (thermostatState ?mid))"
    by (simp_all add: heatingWorld_eq initialWorld_def DEFAULT_CONFIG_def isDouble_examples)
  have c: "c_targetTemperature (thermostatConfig coolWorld) = toDouble 19.1"
    "c_hysteresis (thermostatConfig coolWorld) = toDouble 0.2"
    "isDouble (currentTemperature (thermostatState coolWorld))"
    by (simp_all add: coolWorld_eq initialWorld_def isDouble_examples)
  have lt1: "toDouble 18.9 < toDouble 19.1 - toDouble 0.2"
    by (simp add: toDouble_18_9 toDouble_19_1 toDouble_0_2)
  have lt2: "toDouble 18.9 < toDouble (toDouble 19.1 - toDouble 0.2)"
    unfolding toDouble_19_1_minus_0_2 toDouble_18_9 by simp
  show ?thesis
    using a b lt1 isDouble_examples
      controlHeating_hysteresis [OF a s, of 31000 True]
      controlHeating_hysteresis [OF a h, of 61000 True]
      controlHeating_hysteresis [OF a m, of 61000 True]
      controlHeating_hysteresis [OF b c, of 31000 True] lt2
    by (simp add: Let_def startedWorld_eq heatingWorld_eq coolWorld_eq initialWorld_def
        DEFAULT_CONFIG_def toDouble_41_2 toDouble_22_1)
qed

section \<open>Starting a loop that already runs\<close>

text \<open>
  \<^verbatim>\<open>startThermostat\<close> assigns the configuration before it asks whether the loop
  runs: on a running loop it returns success and replaces \<open>thermostatConfig\<close> by
  \<open>DEFAULT_CONFIG\<close> overridden with the fields of the argument, leaving all else as it
  was.
\<close>

lemma startThermostat_while_running:
  "isRunning (thermostatState w) \<Longrightarrow>
     startThermostat now reading config w =
       (w\<lparr>thermostatConfig := spreadConfig DEFAULT_CONFIG config\<rparr>, True)"
  by (simp add: startThermostat_def Let_def)

text \<open>
  Claim C7 says that starting a loop that already runs is a no-op that leaves state and
  configuration unchanged. The code does otherwise: on the running loop of \<open>warmWorld\<close>,
  whose setpoint was raised to 25, a start without argument returns success and puts the
  configured target, which the control decision reads, back to 22, while the state's
  \<open>targetTemperature\<close> and the persisted setting stay 25.
\<close>

theorem startThermostat_while_running_resets_config:
  "isRunning (thermostatState warmWorld)
   \<and> c_targetTemperature (thermostatConfig warmWorld) = 25
   \<and> snd (startThermostat 3000 (Inr 19) noConfig warmWorld)
   \<and> c_targetTemperature (thermostatConfig (fst (startThermostat 3000 (Inr 19) noConfig warmWorld))) = 22
   \<and> targetTemperature (thermostatState (fst (startThermostat 3000 (Inr 19) noConfig warmWorld))) = 25
   \<and> settingTargetTemperature (fst (startThermostat 3000 (Inr 19) noConfig warmWorld)) = Some 25
   \<and> thermostatConfig (fst (startThermostat 3000 (Inr 19) noConfig warmWorld))
        \<noteq> thermostatConfig warmWorld"
  by (simp add: warmWorld_eq startedWorld_eq initialWorld_def startThermostat_def spreadConfig_def
      noConfig_def DEFAULT_CONFIG_def)

section \<open>The minimum-action interval\<close>

lemma controlHeating_gate_closed:
  "now - lastControlAction w < 30000 \<Longrightarrow> controlHeating now gpioOk w = w"
  by (simp add: controlHeating_def minActionInterval_def Let_def)

lemma controlHeating_toggle:
  assumes "isHeating (thermostatState w) = relayState w"
  shows "(relayState (controlHeating now gpioOk w) \<noteq> relayState w \<longrightarrow>
            now - lastControlAction w \<ge> 30000
          \<and> lastControlAction (controlHeating now gpioOk w) = now)
       \<and> (relayState (controlHeating now gpioOk w) = relayState w \<longrightarrow>
            lastControlAction (controlHeating now gpioOk w) = lastControlAction w)"
  using assms by (auto simp add: controlHeating_def minActionInterval_def relay_defs Let_def)

lemma timerFires_read:
  "thermostatInterval w \<noteq> None \<Longrightarrow>
     timerFires now (Inr t) gpioOk w =
       controlHeating now gpioOk
         (w\<lparr>thermostatState := (thermostatState w)
              \<lparr>currentTemperature := t, isHeating := relayState w,
               lastUpdated := now, consecutiveErrors := 0\<rparr>\<rparr>)"
  by (auto simp add: timerFires_def tick_def updateCurrentState_def resetErrorCounter_def
      getRelayState_def Let_def)

lemma timerFires_no_timer:
  "thermostatInterval w = None \<Longrightarrow> timerFires now reading gpioOk w = w"
  by (simp add: timerFires_def)

lemma toggleTimes_no_timer:
  "thermostatInterval w = None \<Longrightarrow> toggleTimes w ticks = []"
  by (induction ticks arbitrary: w) (auto simp add: timerFires_no_timer)

text \<open>
  The third kind of failed tick: the callback, not \<^verbatim>\<open>handleSensorError\<close>, reaches
  the maximum, and \<^verbatim>\<open>stopThermostat\<close> runs on a loop that still runs.
\<close>

lemma timerFires_failed_read_stops:
  assumes "thermostatInterval w \<noteq> None"
    and "consecutiveErrors (thermostatState w) + 1 < maxConsecutiveErrors (thermostatConfig w)"
    and "maxConsecutiveErrors (thermostatConfig w) \<le> consecutiveErrors (thermostatState w) + 2"
  shows "thermostatConfig (timerFires now (Inl msg) gpioOk w) = thermostatConfig w
       \<and> (relayState (timerFires now (Inl msg) gpioOk w) \<noteq> relayState w \<longrightarrow>
            thermostatInterval (timerFires now (Inl msg) gpioOk w) = None)"
  using assms
  by (auto simp add: timerFires_def tick_def updateCurrentState_def handleSensorError_def
      notifyCriticalError_def stopThermostat_def relay_defs publish_defs Let_def)

lemma timerFires_evenCount:
  assumes "evenCount w"
  shows "evenCount (timerFires now reading gpioOk w)
       \<and> (relayState (timerFires now reading gpioOk w) \<noteq> relayState w \<longrightarrow>
            now - lastControlAction w \<ge> 30000
          \<and> lastControlAction (timerFires now reading gpioOk w) = now)
       \<and> (relayState (timerFires now reading gpioOk w) = relayState w \<longrightarrow>
            lastControlAction (timerFires now reading gpioOk w) = lastControlAction w)"
proof (cases "thermostatInterval w = None")
  case True
  then show ?thesis using assms by (simp add: timerFires_no_timer)
next
  case armed: False
  show ?thesis
  proof (cases reading)
    case (Inr t)
    let ?u = "w\<lparr>thermostatState := (thermostatState w)
              \<lparr>currentTemperature := t, isHeating := relayState w,
               lastUpdated := now, consecutiveErrors := 0\<rparr>\<rparr>"
    have "isHeating (thermostatState ?u) = relayState ?u" by simp
    from controlHeating_toggle [OF this, of now gpioOk]
    show ?thesis
      using assms armed Inr
      by (simp add: timerFires_read evenCount_def controlHeating_keeps)
  next
    case (Inl msg)
    have m: "maxConsecutiveErrors (thermostatConfig w) = 5"
      and e: "even (consecutiveErrors (thermostatState w))"
      using assms by (simp_all add: evenCount_def)
    show ?thesis
    proof (cases "consecutiveErrors (thermostatState w) + 1 \<ge> 5")
      case True
      then show ?thesis
        using armed Inl m e
        by (simp add: timerFires_failed_read_pauses evenCount_def)
    next
      case False
      with e have "consecutiveErrors (thermostatState w) + 2 < 5"
        by presburger
      then show ?thesis
        using armed Inl m e
        by (simp add: timerFires_failed_read_counts_twice evenCount_def)
    qed
  qed
qed

lemma toggleTimes_gated:
  "evenCount w \<Longrightarrow> gated (lastControlAction w) (toggleTimes w ticks)"
proof (induction ticks arbitrary: w)
  case Nil
  then show ?case by simp
next
  case (Cons a ticks)
  obtain now reading gpioOk where a: "a = (now, reading, gpioOk)"
    by (cases a) auto
  let ?w' = "timerFires now reading gpioOk w"
  from timerFires_evenCount [OF Cons.prems, of now reading gpioOk]
  have ev: "evenCount ?w'"
    and tg: "relayState ?w' \<noteq> relayState w \<longrightarrow>
            now - lastControlAction w \<ge> 30000 \<and> lastControlAction ?w' = now"
      "relayState ?w' = relayState w \<longrightarrow> lastControlAction ?w' = lastControlAction w"
    by simp_all
  from Cons.IH [OF ev] have "gated (lastControlAction ?w') (toggleTimes ?w' ticks)" .
  then show ?case
    using tg by (auto simp add: a Let_def split: if_splits)
qed

lemma gated_lower:
  "gated l ts \<Longrightarrow> \<forall>t \<in> set ts. t - l \<ge> 30000"
proof (induction ts arbitrary: l)
  case Nil
  then show ?case by simp
next
  case (Cons a ts)
  then have "a - l \<ge> 30000" and "gated a ts" by simp_all
  from Cons.IH [OF \<open>gated a ts\<close>] have "\<forall>t \<in> set ts. t - a \<ge> 30000" .
  with \<open>a - l \<ge> 30000\<close> show ?case by fastforce
qed

lemma gated_apart:
  "gated l ts \<Longrightarrow> sorted_wrt (\<lambda>t t'. t' - t \<ge> 30000) ts"
  by (induction ts arbitrary: l) (auto dest: gated_lower)

lemma timerFires_any:
  assumes "maxConsecutiveErrors (thermostatConfig w) = 5"
  shows "maxConsecutiveErrors (thermostatConfig (timerFires now reading gpioOk w)) = 5
       \<and> (relayState (timerFires now reading gpioOk w) \<noteq> relayState w \<longrightarrow>
            thermostatInterval (timerFires now reading gpioOk w) = None
          \<or> evenCount (timerFires now reading gpioOk w)
            \<and> lastControlAction (timerFires now reading gpioOk w) = now)"
proof (cases "thermostatInterval w = None")
  case True
  then show ?thesis using assms by (simp add: timerFires_no_timer)
next
  case armed: False
  show ?thesis
  proof (cases reading)
    case (Inr t)
    let ?u = "w\<lparr>thermostatState := (thermostatState w)
              \<lparr>currentTemperature := t, isHeating := relayState w,
               lastUpdated := now, consecutiveErrors := 0\<rparr>\<rparr>"
    have "isHeating (thermostatState ?u) = relayState ?u" by simp
    from controlHeating_toggle [OF this, of now gpioOk]
    show ?thesis
      using assms armed Inr
      by (simp add: timerFires_read evenCount_def controlHeating_keeps)
  next
    case (Inl msg)
    consider "consecutiveErrors (thermostatState w) + 1 \<ge> 5"
      | "consecutiveErrors (thermostatState w) + 2 < 5"
      | "consecutiveErrors (thermostatState w) + 1 < 5" "5 \<le> consecutiveErrors (thermostatState w) + 2"
      by linarith
    then show ?thesis
    proof cases
      case 1
      then show ?thesis using armed Inl assms by (simp add: timerFires_failed_read_pauses)
    next
      case 2
      then show ?thesis using armed Inl assms by (simp add: timerFires_failed_read_counts_twice)
    next
      case 3
      then show ?thesis
        using armed Inl assms timerFires_failed_read_stops [where w = w and msg = msg and now = now
            and gpioOk = gpioOk] by simp
    qed
  qed
qed

lemma toggleTimes_apart:
  "maxConsecutiveErrors (thermostatConfig w) = 5 \<Longrightarrow>
     sorted_wrt (\<lambda>t t'. t' - t \<ge> 30000) (toggleTimes w ticks)"
proof (induction ticks arbitrary: w)
  case Nil
  then show ?case by simp
next
  case (Cons a ticks)
  obtain now reading gpioOk where a: "a = (now, reading, gpioOk)"
    by (cases a) auto
  let ?w' = "timerFires now reading gpioOk w"
  from timerFires_any [OF Cons.prems, of now reading gpioOk]
  have m: "maxConsecutiveErrors (thermostatConfig ?w') = 5"
    and tg: "relayState ?w' \<noteq> relayState w \<longrightarrow>
            thermostatInterval ?w' = None \<or> evenCount ?w' \<and> lastControlAction ?w' = now"
    by simp_all
  have rest: "sorted_wrt (\<lambda>t t'. t' - t \<ge> 30000) (toggleTimes ?w' ticks)"
    using Cons.IH [OF m] .
  show ?case
  proof (cases "relayState ?w' \<noteq> relayState w")
    case False
    then show ?thesis using rest by (simp add: a Let_def)
  next
    case True
    with tg consider "thermostatInterval ?w' = None"
      | "evenCount ?w'" "lastControlAction ?w' = now" by auto
    then have "\<forall>t \<in> set (toggleTimes ?w' ticks). t - now \<ge> 30000"
    proof cases
      case 1
      then show ?thesis by (simp add: toggleTimes_no_timer)
    next
      case 2
      from toggleTimes_gated [OF 2(1), of ticks] 2(2)
      show ?thesis by (auto dest: gated_lower)
    qed
    then show ?thesis using True rest by (simp add: a Let_def)
  qed
qed

text \<open>
  Claim C5, amended. While less than 30 s have passed since \<open>lastControlAction\<close>, the
  time of the last successful toggle that the control decision itself made (the load
  time before the first), \<^verbatim>\<open>controlHeating\<close> does nothing at all, whatever the
  temperature. And in every run of timer ticks alone, with any readings and GPIO
  outcomes, from any state whose configured maximum of errors is the default 5, any two
  ticks at which the relay changed lie at least 30 s apart.
\<close>

theorem toggles_thirty_seconds_apart:
  "(now - lastControlAction w < 30000 \<longrightarrow> controlHeating now gpioOk w = w)
   \<and> (maxConsecutiveErrors (thermostatConfig w) = 5 \<longrightarrow>
        sorted_wrt (\<lambda>t t'. t' - t \<ge> 30000) (toggleTimes w ticks))"
  using controlHeating_gate_closed toggleTimes_apart by blast

theorem toggles_thirty_seconds_apart_witness:
  "34000 - lastControlAction heatingWorld < 30000
   \<and> controlHeating 34000 True
        (heatingWorld\<lparr>thermostatState :=
           (thermostatState heatingWorld)\<lparr>currentTemperature := 22.5\<rparr>\<rparr>)
      = heatingWorld\<lparr>thermostatState :=
           (thermostatState heatingWorld)\<lparr>currentTemperature := 22.5\<rparr>\<rparr>
   \<and> maxConsecutiveErrors (thermostatConfig startedWorld) = 5
   \<and> toggleTimes startedWorld
        [(31000, Inr 19, True), (34000, Inr 22.5, True), (37000, Inr 22.5, True),
         (61000, Inr 22.5, True), (64000, Inr 19, True), (91000, Inr 19, True)]
      = [31000, 61000, 91000]
   \<and> sorted_wrt (\<lambda>t t'. t' - t \<ge> 30000)
        (toggleTimes startedWorld
          [(31000, Inr 19, True), (34000, Inr 22.5, True), (37000, Inr 22.5, True),
           (61000, Inr 22.5, True), (64000, Inr 19, True), (91000, Inr 19, True)])"
proof -
  have run: "toggleTimes startedWorld
        [(31000, Inr 19, True), (34000, Inr 22.5, True), (37000, Inr 22.5, True),
         (61000, Inr 22.5, True), (64000, Inr 19, True), (91000, Inr 19, True)]
      = [31000, 61000, 91000]"
    by (simp add: startedWorld_eq initialWorld_def DEFAULT_CONFIG_def timerFires_def tick_def
        updateCurrentState_def resetErrorCounter_def getRelayState_def controlHeating_def
        minActionInterval_def relay_defs Let_def toDouble_41_2)
  have m: "maxConsecutiveErrors (thermostatConfig startedWorld) = 5"
    and g: "34000 - lastControlAction heatingWorld < 30000"
    by (simp_all add: startedWorld_eq heatingWorld_eq initialWorld_def DEFAULT_CONFIG_def)
  show ?thesis
    using run m g
      toggles_thirty_seconds_apart [where w = startedWorld and now = 0 and gpioOk = True
        and ticks = "[(31000, Inr 19, True), (34000, Inr 22.5, True), (37000, Inr 22.5, True),
         (61000, Inr 22.5, True), (64000, Inr 19, True), (91000, Inr 19, True)]"]
      toggles_thirty_seconds_apart [where now = 34000 and gpioOk = True and ticks = "[]"
        and w = "heatingWorld\<lparr>thermostatState :=
           (thermostatState heatingWorld)\<lparr>currentTemperature := 22.5\<rparr>\<rparr>"]
    by simp
qed

text \<open>
  Claim C5 as stated fails. A relay command over MQTT switches the relay on without
  writing \<open>lastControlAction\<close>, and the tick one second later switches it off. After
  the tick at 31000 switched the heating on, a setpoint change whose sensor read fails
  counts one error, so that the second failed tick after it reaches the maximum of 5 in
  the callback and \<^verbatim>\<open>stopThermostat\<close> switches the relay off at 37000. And with the
  maximum set to 4, ticks alone toggle the relay at 31000 and at 37000.
\<close>

theorem toggles_closer_than_thirty_seconds:
  "(let w1 = handleRelayCommand 100000 True (Some (JObj [(''value'', JBool True)])) startedWorld;
        w2 = timerFires 101000 (Inr 23) True w1
    in \<not> relayState startedWorld \<and> relayState w1 \<and> \<not> relayState w2
     \<and> relayCommands w2 = [True, False]
     \<and> lastControlAction w1 = lastControlAction startedWorld)
   \<and> (let w1 = fst (setTargetTemperature 32000 (Inl ''sensor'') True None 22 heatingWorld);
          w2 = timerFires 34000 (Inl ''sensor'') True w1;
          w3 = timerFires 37000 (Inl ''sensor'') True w2
      in maxConsecutiveErrors (thermostatConfig heatingWorld) = 5
       \<and> \<not> relayState startedWorld \<and> relayState heatingWorld
       \<and> relayState w1 \<and> relayState w2 \<and> \<not> relayState w3
       \<and> relayCommands w3 = [True, False])
   \<and> toggleTimes strictWorld
        [(31000, Inr 19, True), (34000, Inl ''sensor'', True), (37000, Inl ''sensor'', True)]
      = [31000, 37000]
   \<and> \<not> sorted_wrt (\<lambda>t t'. t' - t \<ge> 30000)
        (toggleTimes strictWorld
          [(31000, Inr 19, True), (34000, Inl ''sensor'', True), (37000, Inl ''sensor'', True)])"
proof -
  have relay: "let w1 = handleRelayCommand 100000 True (Some (JObj [(''value'', JBool True)])) startedWorld;
        w2 = timerFires 101000 (Inr 23) True w1
    in \<not> relayState startedWorld \<and> relayState w1 \<and> \<not> relayState w2
     \<and> relayCommands w2 = [True, False]
     \<and> lastControlAction w1 = lastControlAction startedWorld"
    by (simp add: Let_def startedWorld_eq initialWorld_def DEFAULT_CONFIG_def
        handleRelayCommand_def parseJsonPayload_def publish_defs relay_defs
        timerFires_def tick_def updateCurrentState_def resetErrorCounter_def
        controlHeating_def minActionInterval_def)
  have w1: "fst (setTargetTemperature 32000 (Inl ''sensor'') True None 22 heatingWorld) =
      heatingWorld
        \<lparr>thermostatState := (thermostatState heatingWorld)
           \<lparr>lastError := Some (SensorError ''sensor''), consecutiveErrors := 1\<rparr>,
         settingTargetTemperature := Some 22\<rparr>"
    by (simp add: heatingWorld_eq initialWorld_def DEFAULT_CONFIG_def setTargetTemperature_def
        validateTemperatureValue_def updateCurrentState_def handleSensorError_def
        controlHeating_def minActionInterval_def publish_defs Let_def)
  have shutdown: "let w1 = fst (setTargetTemperature 32000 (Inl ''sensor'') True None 22 heatingWorld);
          w2 = timerFires 34000 (Inl ''sensor'') True w1;
          w3 = timerFires 37000 (Inl ''sensor'') True w2
      in maxConsecutiveErrors (thermostatConfig heatingWorld) = 5
       \<and> \<not> relayState startedWorld \<and> relayState heatingWorld
       \<and> relayState w1 \<and> relayState w2 \<and> \<not> relayState w3
       \<and> relayCommands w3 = [True, False]"
    unfolding w1
    by (simp add: Let_def heatingWorld_eq startedWorld_eq initialWorld_def DEFAULT_CONFIG_def
        timerFires_def tick_def updateCurrentState_def handleSensorError_def
        notifyCriticalError_def stopThermostat_def relay_defs publish_defs)
  have strict: "toggleTimes strictWorld
        [(31000, Inr 19, True), (34000, Inl ''sensor'', True), (37000, Inl ''sensor'', True)]
      = [31000, 37000]"
    by (simp add: Let_def strictWorld_eq startedWorld_eq initialWorld_def DEFAULT_CONFIG_def
        timerFires_def tick_def updateCurrentState_def handleSensorError_def
        resetErrorCounter_def notifyCriticalError_def stopThermostat_def controlHeating_def
        minActionInterval_def relay_defs publish_defs toDouble_41_2)
  show ?thesis
    using relay shutdown unfolding strict by simp
qed

end
